theory Spec2Isabelle
  imports Main
begin

section \<open>Errors and outcomes\<close>

text \<open>
  The exceptions that \<^verbatim>\<open>config_updater.py\<close> can end with. \<open>IOError\<close> carries the
  path that could not be opened; it is the only exception the two \<^verbatim>\<open>try\<close> blocks of
  \<^verbatim>\<open>generate_keys\<close> catch. \<open>CipherError\<close> stands for whatever
  \<^verbatim>\<open>from_primitive\<close> raises on material it cannot parse, \<open>ConfigParseError\<close> for
  what \<^verbatim>\<open>yaml.safe_load\<close> / \<^verbatim>\<open>Configuration.from_primitive\<close> raise, and
  \<open>PolicyError\<close> for an exception of the deployment subclass while it builds its
  policies. None of these is an \<^verbatim>\<open>IOError\<close>.
\<close>

datatype error =
    PluginError string
  | IOError string
  | CipherError
  | VerificationError
  | AttributeError
  | ConfigParseError
  | PolicyError
  | RuntimeError string

text \<open>
  A call either returns a value together with the state it leaves, or raises, again with
  the state at the moment of the raise (files already written stay written).
\<close>

datatype ('a, 's) outcome = Ok 'a 's | Raised error 's

fun final :: "('a, 's) outcome \<Rightarrow> 's" where
  "final (Ok v s) = s"
| "final (Raised e s) = s"

fun completes :: "('a, 's) outcome \<Rightarrow> bool" where
  "completes (Ok v s) = True"
| "completes (Raised e s) = False"

fun raised :: "('a, 's) outcome \<Rightarrow> error option" where
  "raised (Ok v s) = None"
| "raised (Raised e s) = Some e"

section \<open>The configuration directory\<close>

text \<open>
  A file has a content and the two permission bits the code depends on. The file system
  is a map from full paths to files, with the read and write permission of the
  configuration directory itself (the directory is assumed to exist and to be
  searchable). Creating a file needs write permission on the directory; overwriting an
  existing file needs write permission on the file. A new file is created readable and
  writable.
\<close>

record file_node =
  content :: string
  readable :: bool
  writable :: bool

record filesystem =
  files :: "string \<rightharpoonup> file_node"
  dir_readable :: bool
  dir_writable :: bool

text \<open>\<^verbatim>\<open>open(path).read()\<close>: \<open>None\<close> is the \<^verbatim>\<open>IOError\<close>.\<close>

definition open_read :: "filesystem \<Rightarrow> string \<Rightarrow> string option" where
  "open_read fs path =
     (case files fs path of
        None \<Rightarrow> None
      | Some f \<Rightarrow> if readable f then Some (content f) else None)"

text \<open>\<^verbatim>\<open>with open(path, "wb") as fd: fd.write(data)\<close>: \<open>None\<close> is the \<^verbatim>\<open>IOError\<close>.\<close>

definition open_write :: "filesystem \<Rightarrow> string \<Rightarrow> string \<Rightarrow> filesystem option" where
  "open_write fs path data =
     (case files fs path of
        None \<Rightarrow>
          if dir_writable fs
          then Some (fs\<lparr>files := (files fs)(path \<mapsto>
                  \<lparr>content = data, readable = True, writable = True\<rparr>)\<rparr>)
          else None
      | Some f \<Rightarrow>
          if writable f
          then Some (fs\<lparr>files := (files fs)(path \<mapsto> f\<lparr>content := data\<rparr>)\<rparr>)
          else None)"

text \<open>\<^verbatim>\<open>os.access(path, os.R_OK)\<close> on a file.\<close>

definition os_access_R_OK :: "filesystem \<Rightarrow> string \<Rightarrow> bool" where
  "os_access_R_OK fs path =
     (case files fs path of None \<Rightarrow> False | Some f \<Rightarrow> readable f)"

text \<open>\<^verbatim>\<open>os.path.join(a, b)\<close> of \<^verbatim>\<open>posixpath\<close>.\<close>

definition path_join :: "string \<Rightarrow> string \<Rightarrow> string" where
  "path_join a b =
     (if b \<noteq> [] \<and> hd b = CHR ''/'' then b
      else if a = [] \<or> last a = CHR ''/'' then a @ b
      else a @ ''/'' @ b)"

section \<open>Collaborators taken as parameters\<close>

text \<open>
  \<^verbatim>\<open>rekall_agent.crypto\<close> is not part of the sources at hand; the crypto provider is a
  parameter. \<open>'k\<close> is the type of private keys, \<open>'c\<close> of certificates, \<open>'p\<close> of public
  keys. \<open>key_from_primitive\<close> and \<open>cert_from_primitive\<close> return \<open>None\<close> where the
  provider raises on unparsable material. \<open>generate_key\<close> draws the key from the
  entropy counter of the state. \<open>verify c p\<close> is \<open>True\<close> when
  \<^verbatim>\<open>c.verify(p)\<close> returns and \<open>False\<close> when it raises its verification error.
\<close>

record ('k, 'c, 'p) crypto =
  key_from_primitive :: "string \<Rightarrow> 'k option"
  key_to_primitive :: "'k \<Rightarrow> string"
  cert_from_primitive :: "string \<Rightarrow> 'c option"
  cert_to_primitive :: "'c \<Rightarrow> string"
  generate_key :: "nat \<Rightarrow> 'k"
  MakeCACert :: "'k \<Rightarrow> 'c"
  MakeCASignedCert :: "string \<Rightarrow> 'k \<Rightarrow> 'c \<Rightarrow> 'k \<Rightarrow> 'c"
  get_public_key :: "'c \<Rightarrow> 'p"
  verify :: "'c \<Rightarrow> 'p \<Rightarrow> bool"
  sign :: "'k \<Rightarrow> string \<Rightarrow> string"

section \<open>The configuration objects\<close>

text \<open>
  \<^verbatim>\<open>agent.Configuration\<close> and its parts, with the fields the code assigns. The
  deployment specific content of a policy is kept as an opaque string.
\<close>

record ('k, 'c) server_policy =
  certificate :: "'c option"
  private_key :: "'k option"
  server_data :: string

record client_policy =
  labels :: "string list"
  secret :: string
  writeback_path :: string
  manifest_location :: string

record manifest =
  rekall_session :: "(string \<times> string) list"
  startup_actions :: "string list"

record 'c signed_manifest =
  data :: string
  server_certificate :: "'c option"
  signature :: "string option"

record ('k, 'c) configuration =
  server :: "('k, 'c) server_policy option"
  client :: "client_policy option"
  ca_certificate :: "'c option"
  manifest :: "manifest option"
  signed_manifest :: "'c signed_manifest option"

text \<open>\<^verbatim>\<open>agent.Configuration(session=self.session)\<close>: no field set.\<close>

definition Configuration :: "('k, 'c) configuration" where
  "Configuration =
     \<lparr>server = None, client = None, ca_certificate = None, manifest = None,
      signed_manifest = None\<rparr>"

text \<open>
  What the deployment and the serialisation layer provide.
  \<open>policies k c\<close> is the part of the subclass's \<^verbatim>\<open>_build_config\<close> before its
  \<^verbatim>\<open>super\<close> call: it builds the server and the client policy (\<open>Inl\<close> when it raises).
  \<open>dump_config\<close> is \<^verbatim>\<open>yaml_utils.safe_dump(config.to_primitive())\<close>, \<open>load_config\<close> is
  \<^verbatim>\<open>Configuration.from_primitive(yaml.safe_load(data))\<close> (\<open>None\<close> when it raises).
  \<open>get_agent_config_obj\<close> is
  \<^verbatim>\<open>session.GetParameter("agent_config_obj", cached=False)\<close> once
  \<^verbatim>\<open>agent_configuration\<close> names the server configuration file: it receives the
  object set with \<^verbatim>\<open>SetParameter\<close> in this run, if any, and the file system.
  \<open>dump_manifest\<close> is \<^verbatim>\<open>yaml_utils.safe_dump(manifest.to_primitive())\<close>.
  \<open>publishes\<close> is \<open>False\<close> for the subclass that overrides \<^verbatim>\<open>write_manifest\<close> to do
  nothing.
\<close>

record ('k, 'c) deployment =
  policies :: "'k option \<Rightarrow> 'c option \<Rightarrow> error + (('k, 'c) server_policy \<times> client_policy)"
  flow_ticket_for_client :: "('k, 'c) server_policy \<Rightarrow> string \<Rightarrow> string \<Rightarrow> int \<Rightarrow> string"
  manifest_for_server :: "('k, 'c) server_policy \<Rightarrow> string"
  manifest_to_json :: "manifest \<Rightarrow> string"
  signed_manifest_to_json :: "'c signed_manifest \<Rightarrow> string"
  dump_manifest :: "manifest \<Rightarrow> string"
  dump_config :: "('k, 'c) configuration \<Rightarrow> string"
  load_config :: "string \<Rightarrow> ('k, 'c) configuration option"
  get_agent_config_obj ::
    "('k, 'c) configuration option \<Rightarrow> filesystem \<Rightarrow> string \<Rightarrow> ('k, 'c) configuration option"
  publishes :: bool

section \<open>Plugin arguments and plugin state\<close>

text \<open>
  The arguments of \<^verbatim>\<open>AgentServerInitialize\<close>, the class attribute \<^verbatim>\<open>secret\<close> (drawn
  once when the module is loaded) and the clock read by \<^verbatim>\<open>time.time()\<close>.
  \<^verbatim>\<open>labels\<close> is declared with \<^verbatim>\<open>type="Array", default=["All"]\<close>: a list.
\<close>

record args =
  config_dir :: string
  client_writeback_path :: string
  arg_labels :: "string list"
  class_secret :: string
  now :: int

text \<open>
  The state one run works on: the file system, the entropy counter, the rows yielded so
  far, the attributes \<^verbatim>\<open>self.ca_cert\<close>, \<^verbatim>\<open>self.server_cert\<close>,
  \<^verbatim>\<open>self.server_private_key\<close> and \<^verbatim>\<open>self._config\<close>, the manifests handed to the
  upload location, and what was printed.
\<close>

record ('k, 'c) state =
  fsys :: filesystem
  rng :: nat
  out :: "string list"
  ca_cert :: "'c option"
  server_cert :: "'c option"
  server_private_key :: "'k option"
  config_obj :: "('k, 'c) configuration option"
  uploads :: "(string \<times> string) list"
  printed :: "string list"

definition yield :: "string \<Rightarrow> ('k, 'c) state \<Rightarrow> ('k, 'c) state" where
  "yield m s = s\<lparr>out := out s @ [m]\<rparr>"

subsection \<open>File names\<close>

definition ca_private_key_filename :: string where
  "ca_private_key_filename = ''ca.private_key.pem''"

definition ca_cert_filename :: string where
  "ca_cert_filename = ''ca.cert.pem''"

definition server_private_key_filename :: string where
  "server_private_key_filename = ''server.private_key.pem''"

definition server_certificate_filename :: string where
  "server_certificate_filename = ''server.certificate.pem''"

definition client_config_filename :: string where
  "client_config_filename = ''client.config.yaml''"

definition server_config_filename :: string where
  "server_config_filename = ''server.config.yaml''"

definition client_config_warning :: string where
  "client_config_warning =
     ''# Warning: Do not edit this file. Edit the server config instead.'' @ [CHR 0x0A]"

definition ca_private_key_path :: "args \<Rightarrow> string" where
  "ca_private_key_path a = path_join (config_dir a) ca_private_key_filename"

definition ca_cert_path :: "args \<Rightarrow> string" where
  "ca_cert_path a = path_join (config_dir a) ca_cert_filename"

definition server_private_key_path :: "args \<Rightarrow> string" where
  "server_private_key_path a = path_join (config_dir a) server_private_key_filename"

definition server_certificate_path :: "args \<Rightarrow> string" where
  "server_certificate_path a = path_join (config_dir a) server_certificate_filename"

definition client_config_path :: "args \<Rightarrow> string" where
  "client_config_path a = path_join (config_dir a) client_config_filename"

definition server_config_path :: "args \<Rightarrow> string" where
  "server_config_path a = path_join (config_dir a) server_config_filename"


section \<open>generate_keys\<close>

text \<open>
  The handler of the first \<^verbatim>\<open>try\<close> block: a new CA key is drawn and written, a
  self-signed certificate is made from it and written. An \<^verbatim>\<open>IOError\<close> of these
  writes is raised inside the handler and is not caught.
\<close>

definition ca_except ::
  "('k, 'c, 'p) crypto \<Rightarrow> args \<Rightarrow> ('k, 'c) state \<Rightarrow> ('k, ('k, 'c) state) outcome" where
  "ca_except cp a s =
     (let s1 = yield (''Generating new CA private key into '' @ ca_private_key_path a @
                      '' and '' @ ca_cert_path a) s;
          ca_private_key = generate_key cp (rng s1);
          s2 = s1\<lparr>rng := Suc (rng s1)\<rparr>
      in case open_write (fsys s2) (ca_private_key_path a)
                (key_to_primitive cp ca_private_key) of
           None \<Rightarrow> Raised (IOError (ca_private_key_path a)) s2
         | Some fs1 \<Rightarrow>
             (let c = MakeCACert cp ca_private_key;
                  s3 = s2\<lparr>fsys := fs1, ca_cert := Some c\<rparr>
              in case open_write (fsys s3) (ca_cert_path a) (cert_to_primitive cp c) of
                   None \<Rightarrow> Raised (IOError (ca_cert_path a)) s3
                 | Some fs2 \<Rightarrow> Ok ca_private_key (s3\<lparr>fsys := fs2\<rparr>)))"

text \<open>
  The first \<^verbatim>\<open>try\<close> block with its handler. It returns the local variable
  \<^verbatim>\<open>ca_private_key\<close>.
\<close>

definition ca_block ::
  "('k, 'c, 'p) crypto \<Rightarrow> args \<Rightarrow> ('k, 'c) state \<Rightarrow> ('k, ('k, 'c) state) outcome" where
  "ca_block cp a s =
     (case open_read (fsys s) (ca_private_key_path a) of
        None \<Rightarrow> ca_except cp a s
      | Some kd \<Rightarrow>
          (case key_from_primitive cp kd of
             None \<Rightarrow> Raised CipherError s
           | Some ca_private_key \<Rightarrow>
               (case open_read (fsys s) (ca_cert_path a) of
                  None \<Rightarrow> ca_except cp a s
                | Some cd \<Rightarrow>
                    (case cert_from_primitive cp cd of
                       None \<Rightarrow> Raised CipherError s
                     | Some c \<Rightarrow>
                         Ok ca_private_key
                           (yield (''Reusing existing CA keys in '' @ ca_cert_path a)
                              (s\<lparr>ca_cert := Some c\<rparr>))))))"

text \<open>The handler of the second \<^verbatim>\<open>try\<close> block.\<close>

definition server_except ::
  "('k, 'c, 'p) crypto \<Rightarrow> args \<Rightarrow> 'k \<Rightarrow> ('k, 'c) state \<Rightarrow> (unit, ('k, 'c) state) outcome" where
  "server_except cp a ca_private_key s =
     (let s1 = yield (''Generating new Server private keys into '' @
                      server_private_key_path a @ '' and '' @ server_certificate_path a) s;
          k = generate_key cp (rng s1);
          s2 = s1\<lparr>rng := Suc (rng s1), server_private_key := Some k\<rparr>
      in case open_write (fsys s2) (server_private_key_path a) (key_to_primitive cp k) of
           None \<Rightarrow> Raised (IOError (server_private_key_path a)) s2
         | Some fs1 \<Rightarrow>
             (let s3 = s2\<lparr>fsys := fs1\<rparr>
              in case ca_cert s3 of
                   None \<Rightarrow> Raised AttributeError s3
                 | Some ca \<Rightarrow>
                     (let c = MakeCASignedCert cp ''Rekall Agent Server'' k ca ca_private_key;
                          s4 = s3\<lparr>server_cert := Some c\<rparr>
                      in case open_write (fsys s4) (server_certificate_path a)
                                (cert_to_primitive cp c) of
                           None \<Rightarrow> Raised (IOError (server_certificate_path a)) s4
                         | Some fs2 \<Rightarrow> Ok () (s4\<lparr>fsys := fs2\<rparr>))))"

text \<open>
  The second \<^verbatim>\<open>try\<close> block with its handler. \<^verbatim>\<open>self.server_private_key\<close> is
  assigned as soon as the key file has been read and parsed.
\<close>

definition server_block ::
  "('k, 'c, 'p) crypto \<Rightarrow> args \<Rightarrow> 'k \<Rightarrow> ('k, 'c) state \<Rightarrow> (unit, ('k, 'c) state) outcome" where
  "server_block cp a ca_private_key s =
     (case open_read (fsys s) (server_private_key_path a) of
        None \<Rightarrow> server_except cp a ca_private_key s
      | Some kd \<Rightarrow>
          (case key_from_primitive cp kd of
             None \<Rightarrow> Raised CipherError s
           | Some k \<Rightarrow>
               (let s1 = s\<lparr>server_private_key := Some k\<rparr>
                in case open_read (fsys s1) (server_certificate_path a) of
                     None \<Rightarrow> server_except cp a ca_private_key s1
                   | Some cd \<Rightarrow>
                       (case cert_from_primitive cp cd of
                          None \<Rightarrow> Raised CipherError s1
                        | Some c \<Rightarrow>
                            Ok () (yield (''Reusing existing server keys in '' @
                                          server_certificate_path a)
                                     (s1\<lparr>server_cert := Some c\<rparr>))))))"

text \<open>
  The last statement of \<^verbatim>\<open>generate_keys\<close>:
  \<^verbatim>\<open>self.server_cert.verify(self.ca_cert.get_public_key())\<close>.
\<close>

definition verify_keys ::
  "('k, 'c, 'p) crypto \<Rightarrow> ('k, 'c) state \<Rightarrow> (unit, ('k, 'c) state) outcome" where
  "verify_keys cp s =
     (case server_cert s of
        None \<Rightarrow> Raised AttributeError s
      | Some c \<Rightarrow>
          (case ca_cert s of
             None \<Rightarrow> Raised AttributeError s
           | Some ca \<Rightarrow>
               if verify cp c (get_public_key cp ca) then Ok () s
               else Raised VerificationError s))"

definition generate_keys ::
  "('k, 'c, 'p) crypto \<Rightarrow> args \<Rightarrow> ('k, 'c) state \<Rightarrow> (unit, ('k, 'c) state) outcome" where
  "generate_keys cp a s =
     (case ca_block cp a s of
        Raised e s1 \<Rightarrow> Raised e s1
      | Ok ca_private_key s1 \<Rightarrow>
          (case server_block cp a ca_private_key s1 of
             Raised e s2 \<Rightarrow> Raised e s2
           | Ok u s2 \<Rightarrow> verify_keys cp s2))"

section \<open>build_config\<close>

text \<open>
  \<^verbatim>\<open>AgentServerInitialize._build_config\<close>, on a configuration whose server and client
  policies the subclass has set. \<^verbatim>\<open>labels\<close> is a list, and a list has no method
  \<^verbatim>\<open>add\<close>: the call \<^verbatim>\<open>labels.add("All")\<close> raises \<^verbatim>\<open>AttributeError\<close>. The
  configuration object is returned; the state is not changed.
\<close>

definition build_config ::
  "('k, 'c, 'p) crypto \<Rightarrow> ('k, 'c) deployment \<Rightarrow> args \<Rightarrow> ('k, 'c) state \<Rightarrow>
   ('k, 'c) configuration \<Rightarrow> (('k, 'c) configuration, ('k, 'c) state) outcome" where
  "build_config cp dp a s config =
     (let config1 = config\<lparr>ca_certificate := ca_cert s\<rparr>;
          labels_arg = arg_labels a
      in if ''All'' \<notin> set labels_arg then Raised AttributeError s
         else
           (case server config1 of
              None \<Rightarrow> Raised AttributeError s
            | Some sp0 \<Rightarrow>
                (let sp = sp0\<lparr>certificate := server_cert s,
                              private_key := server_private_key s\<rparr>
                 in case client config1 of
                      None \<Rightarrow> Raised AttributeError s
                    | Some cl0 \<Rightarrow>
                        (let cl = cl0\<lparr>labels := labels_arg, secret := class_secret a,
                                      writeback_path := client_writeback_path a\<rparr>;
                             m = \<lparr>rekall_session = [(''live'', ''API'')],
                                  startup_actions =
                                    [flow_ticket_for_client dp sp ''Startup'' ''{client_id}''
                                       (now a + 60 * 60 * 24 * 365)]\<rparr>;
                             sm = \<lparr>data = manifest_to_json dp m,
                                   server_certificate = certificate sp,
                                   signature = None\<rparr>
                         in case private_key sp of
                              None \<Rightarrow> Raised AttributeError s
                            | Some k \<Rightarrow>
                                Ok (config1\<lparr>server := Some sp, client := Some cl,
                                            manifest := Some m,
                                            signed_manifest :=
                                              Some (sm\<lparr>signature := Some (sign cp k (data sm))\<rparr>)\<rparr>)
                                   s))))"

text \<open>
  The \<^verbatim>\<open>_build_config\<close> that \<^verbatim>\<open>write_config\<close> calls is the subclass's: it sets the
  two policies and then calls the one above.
\<close>

definition subclass_build_config ::
  "('k, 'c, 'p) crypto \<Rightarrow> ('k, 'c) deployment \<Rightarrow> args \<Rightarrow> ('k, 'c) state \<Rightarrow>
   ('k, 'c) configuration \<Rightarrow> (('k, 'c) configuration, ('k, 'c) state) outcome" where
  "subclass_build_config cp dp a s config =
     (case policies dp (server_private_key s) (server_cert s) of
        Inl e \<Rightarrow> Raised e s
      | Inr (sp, cl) \<Rightarrow>
          build_config cp dp a s (config\<lparr>server := Some sp, client := Some cl\<rparr>))"

section \<open>write_config\<close>

text \<open>The client gets just the client part of the configuration.\<close>

definition client_projection :: "('k, 'c) configuration \<Rightarrow> ('k, 'c) configuration" where
  "client_projection config =
     Configuration\<lparr>client := client config, ca_certificate := ca_certificate config\<rparr>"

text \<open>
  The part of \<^verbatim>\<open>write_config\<close> after the \<^verbatim>\<open>if\<close>: the client document is written and
  the server configuration is loaded back through the session. \<open>set_obj\<close> is the object
  given to \<^verbatim>\<open>SetParameter("agent_config_obj", ...)\<close> in this run, if any.
\<close>

definition write_client_config ::
  "('k, 'c) deployment \<Rightarrow> args \<Rightarrow> ('k, 'c) configuration \<Rightarrow> ('k, 'c) configuration option \<Rightarrow>
   ('k, 'c) state \<Rightarrow> (unit, ('k, 'c) state) outcome" where
  "write_client_config dp a config set_obj s =
     (let client_config = client_projection config;
          s1 = yield (''Writing client config file '' @ client_config_path a) s
      in case open_write (fsys s1) (client_config_path a)
                (client_config_warning @ dump_config dp client_config) of
           None \<Rightarrow> Raised (IOError (client_config_path a)) s1
         | Some fs1 \<Rightarrow>
             (let s2 = s1\<lparr>fsys := fs1\<rparr>;
                  s3 = s2\<lparr>config_obj :=
                          get_agent_config_obj dp set_obj (fsys s2) (server_config_path a)\<rparr>
              in if config_obj s3 = None
                 then Raised (RuntimeError ''Unable to parse provided configuration.'') s3
                 else Ok () s3))"

text \<open>
  The \<^verbatim>\<open>if\<close> at the head of \<^verbatim>\<open>write_config\<close>: an existing readable server
  configuration file is loaded, otherwise a new configuration is built and written. It
  returns the configuration and the object given to \<^verbatim>\<open>SetParameter\<close>, if any.
\<close>

definition load_or_build_config ::
  "('k, 'c, 'p) crypto \<Rightarrow> ('k, 'c) deployment \<Rightarrow> args \<Rightarrow> ('k, 'c) state \<Rightarrow>
   (('k, 'c) configuration \<times> ('k, 'c) configuration option, ('k, 'c) state) outcome" where
  "load_or_build_config cp dp a s =
     (if os_access_R_OK (fsys s) (server_config_path a) then
        (let s1 = yield (''Server config at '' @ server_config_path a @
                         '' exists. Remove to regenerate.'') s
         in case open_read (fsys s1) (server_config_path a) of
              None \<Rightarrow> Raised (IOError (server_config_path a)) s1
            | Some server_config_data \<Rightarrow>
                (case load_config dp server_config_data of
                   None \<Rightarrow> Raised ConfigParseError s1
                 | Some config \<Rightarrow> Ok (config, None) s1))
      else
        (case subclass_build_config cp dp a s Configuration of
           Raised e s1 \<Rightarrow> Raised e s1
         | Ok config s1 \<Rightarrow>
             (let s2 = yield (''Writing server config file '' @ server_config_path a) s1
              in case open_write (fsys s2) (server_config_path a) (dump_config dp config) of
                   None \<Rightarrow> Raised (IOError (server_config_path a)) s2
                 | Some fs1 \<Rightarrow> Ok (config, Some config) (s2\<lparr>fsys := fs1\<rparr>))))"

definition write_config ::
  "('k, 'c, 'p) crypto \<Rightarrow> ('k, 'c) deployment \<Rightarrow> args \<Rightarrow> ('k, 'c) state \<Rightarrow>
   (unit, ('k, 'c) state) outcome" where
  "write_config cp dp a s =
     (case load_or_build_config cp dp a s of
        Raised e s1 \<Rightarrow> Raised e s1
      | Ok (config, set_obj) s1 \<Rightarrow> write_client_config dp a config set_obj s1)"

text \<open>Whether \<^verbatim>\<open>open(path, "wb")\<close> succeeds.\<close>

definition can_write :: "filesystem \<Rightarrow> string \<Rightarrow> bool" where
  "can_write fs path =
     (case files fs path of None \<Rightarrow> dir_writable fs | Some f \<Rightarrow> writable f)"

section \<open>write_manifest and collect\<close>

definition write_manifest ::
  "('k, 'c) deployment \<Rightarrow> ('k, 'c) state \<Rightarrow> (unit, ('k, 'c) state) outcome" where
  "write_manifest dp s =
     (if \<not> publishes dp then Ok () s
      else
        (let s1 = yield ''Writing manifest file.'' s
         in case config_obj s1 of
              None \<Rightarrow> Raised AttributeError s1
            | Some config \<Rightarrow>
                (case server config of
                   None \<Rightarrow> Raised AttributeError s1
                 | Some sp \<Rightarrow>
                     (let upload_location = manifest_for_server dp sp;
                          s2 = yield (''Writing manifest file to '' @ upload_location) s1
                      in case signed_manifest config of
                           None \<Rightarrow> Raised AttributeError s2
                         | Some sm \<Rightarrow>
                             (let s3 = s2\<lparr>uploads := uploads s2 @
                                          [(upload_location, signed_manifest_to_json dp sm)]\<rparr>
                              in case manifest config of
                                   None \<Rightarrow> Raised AttributeError s3
                                 | Some m \<Rightarrow>
                                     Ok () (s3\<lparr>printed := printed s3 @
                                               [dump_manifest dp m]\<rparr>))))))"

text \<open>
  \<^verbatim>\<open>collect\<close>: the check of the directory, then the three methods in order, then the
  last row. The check asks \<^verbatim>\<open>os.access(self.config_dir, os.R_OK)\<close>.
\<close>

definition collect ::
  "('k, 'c, 'p) crypto \<Rightarrow> ('k, 'c) deployment \<Rightarrow> args \<Rightarrow> ('k, 'c) state \<Rightarrow>
   (unit, ('k, 'c) state) outcome" where
  "collect cp dp a s =
     (if \<not> dir_readable (fsys s)
      then Raised (PluginError (''Unable to write to config directory '' @ config_dir a)) s
      else
        (case generate_keys cp a s of
           Raised e s1 \<Rightarrow> Raised e s1
         | Ok u s1 \<Rightarrow>
             (case write_config cp dp a s1 of
                Raised e s2 \<Rightarrow> Raised e s2
              | Ok u s2 \<Rightarrow>
                  (case write_manifest dp s2 of
                     Raised e s3 \<Rightarrow> Raised e s3
                   | Ok u s3 \<Rightarrow> Ok () (yield ''Done!'' s3)))))"

section \<open>A small concrete provider and deployment\<close>

text \<open>
  To run the model on concrete directories: keys are non-empty strings without a colon
  and are their own serialisation, a certificate is the pair of the subject's key and the
  issuer's key, written with a colon between them, and a certificate verifies under a
  public key when its issuer is that key.
\<close>

definition demo_crypto :: "(string, string \<times> string, string) crypto" where
  "demo_crypto =
     \<lparr>key_from_primitive = (\<lambda>d. if d = [] \<or> CHR '':'' \<in> set d then None else Some d),
      key_to_primitive = (\<lambda>k. k),
      cert_from_primitive =
        (\<lambda>d. if CHR '':'' \<in> set d
             then Some (takeWhile (\<lambda>x. x \<noteq> CHR '':'') d, tl (dropWhile (\<lambda>x. x \<noteq> CHR '':'') d))
             else None),
      cert_to_primitive = (\<lambda>c. fst c @ '':'' @ snd c),
      generate_key = (\<lambda>n. ''key'' @ replicate n (CHR ''+'')),
      MakeCACert = (\<lambda>k. (k, k)),
      MakeCASignedCert = (\<lambda>name k ca ca_key. (k, ca_key)),
      get_public_key = fst,
      verify = (\<lambda>c p. snd c = p),
      sign = (\<lambda>k d. k @ ''/'' @ d)\<rparr>"

definition demo_dump_config :: "(string, string \<times> string) configuration \<Rightarrow> string" where
  "demo_dump_config config =
     (case server config of
        None \<Rightarrow> []
      | Some sp \<Rightarrow>
          ''server_key='' @ (case private_key sp of None \<Rightarrow> [] | Some k \<Rightarrow> k) @ '';'') @
     ''secret='' @ (case client config of None \<Rightarrow> [] | Some cl \<Rightarrow> secret cl)"

definition demo_load_config :: "string \<Rightarrow> (string, string \<times> string) configuration option" where
  "demo_load_config d =
     (if CHR ''='' \<in> set d
      then Some
        \<lparr>server = Some \<lparr>certificate = None, private_key = None, server_data = ''bucket''\<rparr>,
         client = Some \<lparr>labels = [''All''],
                        secret = rev (takeWhile (\<lambda>x. x \<noteq> CHR ''='') (rev d)),
                        writeback_path = ''/etc/rekall/agent.local.json'',
                        manifest_location = ''bucket/manifest''\<rparr>,
         ca_certificate = None,
         manifest = Some \<lparr>rekall_session = [(''live'', ''API'')], startup_actions = [''ticket'']\<rparr>,
         signed_manifest = Some \<lparr>data = ''ticket'', server_certificate = None,
                                  signature = Some ''sig''\<rparr>\<rparr>
      else None)"

definition demo_deployment :: "(string, string \<times> string) deployment" where
  "demo_deployment =
     \<lparr>policies = (\<lambda>k c. Inr (\<lparr>certificate = None, private_key = None, server_data = ''bucket''\<rparr>,
                             \<lparr>labels = [], secret = [], writeback_path = [],
                              manifest_location = ''bucket/manifest''\<rparr>)),
      flow_ticket_for_client = (\<lambda>sp queue template expiration. ''ticket''),
      manifest_for_server = (\<lambda>sp. ''bucket/manifest''),
      manifest_to_json = (\<lambda>m. concat (startup_actions m)),
      signed_manifest_to_json = (\<lambda>sm. data sm),
      dump_manifest = (\<lambda>m. concat (startup_actions m)),
      dump_config = demo_dump_config,
      load_config = demo_load_config,
      get_agent_config_obj =
        (\<lambda>set_obj fs path.
           case set_obj of
             Some config \<Rightarrow> Some config
           | None \<Rightarrow> (case open_read fs path of None \<Rightarrow> None | Some d \<Rightarrow> demo_load_config d)),
      publishes = True\<rparr>"

definition demo_args :: args where
  "demo_args =
     \<lparr>config_dir = ''/cfg'', client_writeback_path = ''/etc/rekall/agent.local.json'',
      arg_labels = [''All''], class_secret = ''0a1b2c3d4e'', now = 0\<rparr>"

text \<open>A fresh process working on the file system \<open>fs\<close>.\<close>

definition start :: "filesystem \<Rightarrow> ('k, 'c) state" where
  "start fs =
     \<lparr>fsys = fs, rng = 0, out = [], ca_cert = None, server_cert = None,
      server_private_key = None, config_obj = None, uploads = [], printed = []\<rparr>"

definition plain_file :: "string \<Rightarrow> file_node" where
  "plain_file d = \<lparr>content = d, readable = True, writable = True\<rparr>"

definition empty_dir :: filesystem where
  "empty_dir = \<lparr>files = Map.empty, dir_readable = True, dir_writable = True\<rparr>"

text \<open>A readable and writable directory \<^verbatim>\<open>/cfg\<close> holding the given files.\<close>

definition dir_with :: "(string \<times> string) list \<Rightarrow> filesystem" where
  "dir_with entries =
     \<lparr>files = map_of (map (\<lambda>(name, d). (path_join ''/cfg'' name, plain_file d)) entries),
      dir_readable = True, dir_writable = True\<rparr>"

text \<open>All four key and certificate files, the server certificate issued by another CA.\<close>

definition foreign_server_dir :: filesystem where
  "foreign_server_dir =
     dir_with [(ca_private_key_filename, ''ca''), (ca_cert_filename, ''ca:ca''),
               (server_private_key_filename, ''srv''),
               (server_certificate_filename, ''srv:other'')]"

text \<open>A CA certificate without its private key.\<close>

definition cert_only_dir :: filesystem where
  "cert_only_dir = dir_with [(ca_cert_filename, ''lost:lost'')]"

text \<open>A CA key and a CA certificate that do not belong together, no server files.\<close>

definition mixed_ca_dir :: filesystem where
  "mixed_ca_dir =
     dir_with [(ca_private_key_filename, ''ca1''), (ca_cert_filename, ''ca2:ca2'')]"

text \<open>Server files left from an earlier deployment, no CA files.\<close>

definition stale_server_dir :: filesystem where
  "stale_server_dir =
     dir_with [(server_private_key_filename, ''old''),
               (server_certificate_filename, ''old:gone'')]"

text \<open>An empty directory that can be read but not written.\<close>

definition read_only_dir :: filesystem where
  "read_only_dir = \<lparr>files = Map.empty, dir_readable = True, dir_writable = False\<rparr>"

text \<open>A directory whose server configuration file is not a configuration.\<close>

definition garbled_config_dir :: filesystem where
  "garbled_config_dir =
     dir_with [(ca_private_key_filename, ''ca''), (ca_cert_filename, ''ca:ca''),
               (server_private_key_filename, ''srv''),
               (server_certificate_filename, ''srv:ca''),
               (server_config_filename, ''{unclosed'')]"

text \<open>A directory populated by an earlier run.\<close>

definition deployed_dir :: filesystem where
  "deployed_dir =
     dir_with [(ca_private_key_filename, ''ca''), (ca_cert_filename, ''ca:ca''),
               (server_private_key_filename, ''srv''),
               (server_certificate_filename, ''srv:ca''),
               (server_config_filename, ''server_key=srv;secret=0a1b2c3d4e'')]"


section \<open>Paths and the file system\<close>

lemma path_join_eq_iff:
  "b \<noteq> [] \<Longrightarrow> hd b \<noteq> CHR ''/'' \<Longrightarrow> b' \<noteq> [] \<Longrightarrow> hd b' \<noteq> CHR ''/'' \<Longrightarrow>
   (path_join a b = path_join a b') = (b = b')"
  by (simp add: path_join_def)

lemmas filename_defs =
  ca_private_key_filename_def ca_cert_filename_def server_private_key_filename_def
  server_certificate_filename_def client_config_filename_def server_config_filename_def

lemmas path_defs =
  ca_private_key_path_def ca_cert_path_def server_private_key_path_def
  server_certificate_path_def client_config_path_def server_config_path_def

text \<open>The six files of one configuration directory have six different paths.\<close>

lemma paths_distinct:
  "ca_private_key_path a \<noteq> ca_cert_path a"
  "ca_private_key_path a \<noteq> server_private_key_path a"
  "ca_private_key_path a \<noteq> server_certificate_path a"
  "ca_private_key_path a \<noteq> server_config_path a"
  "ca_private_key_path a \<noteq> client_config_path a"
  "ca_cert_path a \<noteq> server_private_key_path a"
  "ca_cert_path a \<noteq> server_certificate_path a"
  "ca_cert_path a \<noteq> server_config_path a"
  "ca_cert_path a \<noteq> client_config_path a"
  "server_private_key_path a \<noteq> server_certificate_path a"
  "server_private_key_path a \<noteq> server_config_path a"
  "server_private_key_path a \<noteq> client_config_path a"
  "server_certificate_path a \<noteq> server_config_path a"
  "server_certificate_path a \<noteq> client_config_path a"
  "server_config_path a \<noteq> client_config_path a"
  by (simp_all add: path_defs filename_defs path_join_eq_iff)

lemma open_write_files:
  "open_write fs p d = Some fs' \<Longrightarrow> q \<noteq> p \<Longrightarrow> files fs' q = files fs q"
  by (auto simp: open_write_def split: option.splits if_splits)


lemma open_write_content:
  "open_write fs p d = Some fs' \<Longrightarrow> \<exists>f. files fs' p = Some f \<and> content f = d"
  by (auto simp: open_write_def split: option.splits if_splits)


text \<open>Unfolding sets for running the model on the concrete provider.\<close>

lemmas demo_defs =
  demo_crypto_def demo_deployment_def demo_args_def demo_dump_config_def demo_load_config_def
  start_def empty_dir_def plain_file_def dir_with_def foreign_server_dir_def cert_only_dir_def
  mixed_ca_dir_def stale_server_dir_def read_only_dir_def garbled_config_dir_def
  deployed_dir_def

lemmas op_defs =
  generate_keys_def ca_block_def ca_except_def server_block_def server_except_def
  verify_keys_def open_read_def open_write_def os_access_R_OK_def yield_def path_join_def
  build_config_def subclass_build_config_def client_projection_def Configuration_def
  write_client_config_def load_or_build_config_def write_config_def write_manifest_def
  collect_def
  client_config_warning_def

section \<open>What each stage writes\<close>
















lemma verify_keys_state: "final (verify_keys cp s) = s"
  by (auto simp: verify_keys_def split: option.splits)







lemma ca_block_frame:
  assumes "q \<noteq> ca_private_key_path a" and "q \<noteq> ca_cert_path a"
  shows "files (fsys (final (ca_block cp a s))) q = files (fsys s) q"
proof -
  have e: "files (fsys (final (ca_except cp a t))) q = files (fsys t) q" for t
  proof (cases "open_write (fsys t) (ca_private_key_path a)
                  (key_to_primitive cp (generate_key cp (rng t)))")
    case None
    then show ?thesis by (simp add: ca_except_def yield_def Let_def)
  next
    case (Some fs1)
    note w1 = open_write_files [OF Some assms(1)]
    show ?thesis
    proof (cases "open_write fs1 (ca_cert_path a)
                    (cert_to_primitive cp (MakeCACert cp (generate_key cp (rng t))))")
      case None
      with Some w1 show ?thesis by (simp add: ca_except_def yield_def Let_def)
    next
      case (Some fs2)
      from open_write_files [OF Some assms(2)] w1 \<open>open_write (fsys t) _ _ = Some fs1\<close> Some
      show ?thesis by (simp add: ca_except_def yield_def Let_def)
    qed
  qed
  show ?thesis
    by (simp add: ca_block_def e yield_def split: option.splits)
qed

lemma server_block_frame:
  assumes "q \<noteq> server_private_key_path a" and "q \<noteq> server_certificate_path a"
  shows "files (fsys (final (server_block cp a k s))) q = files (fsys s) q"
proof -
  have e: "files (fsys (final (server_except cp a k t))) q = files (fsys t) q" for t
  proof (cases "open_write (fsys t) (server_private_key_path a)
                  (key_to_primitive cp (generate_key cp (rng t)))")
    case None
    then show ?thesis by (simp add: server_except_def yield_def Let_def)
  next
    case w: (Some fs1)
    note w1 = open_write_files [OF w assms(1)]
    show ?thesis
    proof (cases "ca_cert t")
      case None
      with w w1 show ?thesis by (simp add: server_except_def yield_def Let_def)
    next
      case (Some ca)
      show ?thesis
      proof (cases "open_write fs1 (server_certificate_path a)
                      (cert_to_primitive cp
                         (MakeCASignedCert cp ''Rekall Agent Server''
                            (generate_key cp (rng t)) ca k))")
        case None
        with w w1 Some show ?thesis by (simp add: server_except_def yield_def Let_def)
      next
        case w2: (Some fs2)
        from open_write_files [OF w2 assms(2)] w1 w w2 Some
        show ?thesis by (simp add: server_except_def yield_def Let_def)
      qed
    qed
  qed
  have e': "files (fsys (final (server_except cp a k (t\<lparr>server_private_key := x\<rparr>)))) q =
            files (fsys t) q" for t x
    using e [of "t\<lparr>server_private_key := x\<rparr>"] by simp
  show ?thesis
    by (simp add: server_block_def e e' yield_def Let_def split: option.splits)
qed

lemma server_block_ca_cert: "ca_cert (final (server_block cp a k s)) = ca_cert s"
  by (auto simp: server_block_def server_except_def yield_def Let_def split: option.splits)

lemma ca_block_ca_cert: "ca_block cp a s = Ok k s1 \<Longrightarrow> ca_cert s1 \<noteq> None"
  by (auto simp: ca_block_def ca_except_def yield_def Let_def split: option.splits)

lemma server_block_server_cert: "server_block cp a k s = Ok u s1 \<Longrightarrow> server_cert s1 \<noteq> None"
  by (auto simp: server_block_def server_except_def yield_def Let_def split: option.splits)

lemma ca_block_drawn:
  assumes "ca_block cp a s = Ok k s1" and "rng s1 \<noteq> rng s"
  shows "k = generate_key cp (rng s) \<and> rng s1 = Suc (rng s) \<and>
         ca_cert s1 = Some (MakeCACert cp k)"
  using assms
  by (auto simp: ca_block_def ca_except_def yield_def Let_def split: option.splits)

lemma ca_block_rng:
  "rng (final (ca_block cp a s)) = rng s \<or> rng (final (ca_block cp a s)) = Suc (rng s)"
  by (auto simp: ca_block_def ca_except_def yield_def Let_def split: option.splits)

lemmas run_defs = op_defs path_defs filename_defs demo_defs Let_def

lemmas run_defs' = run_defs can_write_def

lemma generate_keys_final:
  assumes "ca_block cp a s = Ok k s1"
  shows "final (generate_keys cp a s) = final (server_block cp a k s1)"
proof (cases "server_block cp a k s1")
  case (Ok u s2)
  with assms verify_keys_state [of cp s2] show ?thesis by (simp add: generate_keys_def)
next
  case (Raised e s2)
  with assms show ?thesis by (simp add: generate_keys_def)
qed

lemma ca_block_regenerates:
  assumes "files (fsys s) (ca_private_key_path a) = None"
      and "files (fsys s) (ca_cert_path a) = Some f"
      and "dir_writable (fsys s)" and "writable f"
  shows "\<exists>s1. ca_block cp a s = Ok (generate_key cp (rng s)) s1 \<and>
              files (fsys s1) (ca_private_key_path a) =
                Some \<lparr>content = key_to_primitive cp (generate_key cp (rng s)),
                      readable = True, writable = True\<rparr> \<and>
              files (fsys s1) (ca_cert_path a) =
                Some (f\<lparr>content := cert_to_primitive cp (MakeCACert cp (generate_key cp (rng s)))\<rparr>) \<and>
              ca_cert s1 = Some (MakeCACert cp (generate_key cp (rng s)))"
  using assms paths_distinct(1) [of a] paths_distinct(1) [of a, symmetric]
  by (simp add: ca_block_def ca_except_def open_read_def open_write_def yield_def Let_def)

lemma can_write_open_write: "can_write fs p \<Longrightarrow> \<exists>fs'. open_write fs p d = Some fs'"
  by (auto simp: can_write_def open_write_def split: option.splits)

lemma write_client_config_written:
  assumes "can_write (fsys s) (client_config_path a)"
  shows "map_option content
           (files (fsys (final (write_client_config dp a config set_obj s))) (client_config_path a)) =
         Some (client_config_warning @ dump_config dp (client_projection config))"
proof -
  from can_write_open_write [OF assms] obtain fs' where
    w: "open_write (fsys s) (client_config_path a)
          (client_config_warning @ dump_config dp (client_projection config)) = Some fs'"
    by blast
  from open_write_content [OF w] obtain f where
    "files fs' (client_config_path a) = Some f"
    "content f = client_config_warning @ dump_config dp (client_projection config)"
    by blast
  with w show ?thesis
    by (simp add: write_client_config_def yield_def Let_def)
qed

lemma write_client_config_Ok:
  assumes "write_client_config dp a config set_obj s = Ok u s'"
  shows "map_option content (files (fsys s') (client_config_path a)) =
         Some (client_config_warning @ dump_config dp (client_projection config))"
proof -
  from assms have "can_write (fsys s) (client_config_path a)"
    by (auto simp: write_client_config_def yield_def Let_def can_write_def open_write_def
             split: option.splits if_splits)
  from write_client_config_written [OF this, of dp config set_obj] assms show ?thesis by simp
qed















section \<open>Chain of trust\<close>

text \<open>
  Claim C7. Every run of \<open>generate_keys\<close> that completes without raising leaves a server
  certificate and a CA certificate in the plugin such that verifying the server
  certificate against the CA certificate's public key succeeds: the function raises
  before it returns whenever the verification fails.
\<close>

theorem generate_keys_verified:
  assumes "generate_keys cp a s = Ok u s'"
  shows "\<exists>c ca. server_cert s' = Some c \<and> ca_cert s' = Some ca \<and>
                verify cp c (get_public_key cp ca)"
  using assms
  by (auto simp: generate_keys_def verify_keys_def
           split: outcome.splits option.splits if_splits)

theorem generate_keys_verified_witness:
  "completes (generate_keys demo_crypto demo_args (start empty_dir)) \<and>
   (\<exists>c ca. server_cert (final (generate_keys demo_crypto demo_args (start empty_dir))) = Some c \<and>
            ca_cert (final (generate_keys demo_crypto demo_args (start empty_dir))) = Some ca \<and>
            verify demo_crypto c (get_public_key demo_crypto ca))"
proof -
  have run: "completes (generate_keys demo_crypto demo_args (start empty_dir))"
    by (simp add: op_defs path_defs filename_defs demo_defs Let_def)
  then obtain u s' where ok: "generate_keys demo_crypto demo_args (start empty_dir) = Ok u s'"
    by (cases "generate_keys demo_crypto demo_args (start empty_dir)") auto
  from generate_keys_verified [OF ok] run ok show ?thesis by simp
qed

section \<open>Verification on the reuse path\<close>

text \<open>
  Claim C10. On the reuse path of \<open>generate_keys\<close>, where the CA key, the CA certificate,
  the server key and the server certificate are all read from their files and parsed,
  nothing is written, and the loaded server certificate is verified against the loaded CA
  certificate's public key before the function completes: it completes exactly when the
  verification succeeds. When it fails, the whole run aborts with the verification error
  in the state \<open>generate_keys\<close> left, so no file has been written.
\<close>

theorem reuse_path_verified:
  assumes "dir_readable (fsys s)"
      and "open_read (fsys s) (ca_private_key_path a) = Some kd"
      and "key_from_primitive cp kd = Some k"
      and "open_read (fsys s) (ca_cert_path a) = Some cd"
      and "cert_from_primitive cp cd = Some ca"
      and "open_read (fsys s) (server_private_key_path a) = Some skd"
      and "key_from_primitive cp skd = Some sk"
      and "open_read (fsys s) (server_certificate_path a) = Some scd"
      and "cert_from_primitive cp scd = Some sc"
  shows "fsys (final (generate_keys cp a s)) = fsys s \<and>
         ca_cert (final (generate_keys cp a s)) = Some ca \<and>
         server_cert (final (generate_keys cp a s)) = Some sc \<and>
         completes (generate_keys cp a s) = verify cp sc (get_public_key cp ca) \<and>
         (\<not> verify cp sc (get_public_key cp ca) \<longrightarrow>
            collect cp dp a s = Raised VerificationError (final (generate_keys cp a s)))"
  using assms
  by (simp add: generate_keys_def ca_block_def server_block_def verify_keys_def yield_def
                collect_def Let_def)

theorem reuse_path_verified_witness:
  "dir_readable (fsys (start foreign_server_dir :: (string, string \<times> string) state)) \<and>
   open_read foreign_server_dir (server_certificate_path demo_args) = Some ''srv:other'' \<and>
   cert_from_primitive demo_crypto ''srv:other'' = Some (''srv'', ''other'') \<and>
   \<not> verify demo_crypto (''srv'', ''other'') (get_public_key demo_crypto (''ca'', ''ca'')) \<and>
   fsys (final (generate_keys demo_crypto demo_args (start foreign_server_dir))) =
     foreign_server_dir \<and>
   collect demo_crypto demo_deployment demo_args (start foreign_server_dir) =
     Raised VerificationError (final (generate_keys demo_crypto demo_args (start foreign_server_dir)))"
proof -
  let ?s = "start foreign_server_dir :: (string, string \<times> string) state"
  have h1: "dir_readable (fsys ?s)" by (simp add: run_defs)
  have h2: "open_read (fsys ?s) (ca_private_key_path demo_args) = Some ''ca''"
    by (simp add: run_defs)
  have h3: "key_from_primitive demo_crypto ''ca'' = Some ''ca''" by (simp add: run_defs)
  have h4: "open_read (fsys ?s) (ca_cert_path demo_args) = Some ''ca:ca''"
    by (simp add: run_defs)
  have h5: "cert_from_primitive demo_crypto ''ca:ca'' = Some (''ca'', ''ca'')"
    by (simp add: run_defs)
  have h6: "open_read (fsys ?s) (server_private_key_path demo_args) = Some ''srv''"
    by (simp add: run_defs)
  have h7: "key_from_primitive demo_crypto ''srv'' = Some ''srv''" by (simp add: run_defs)
  have h8: "open_read (fsys ?s) (server_certificate_path demo_args) = Some ''srv:other''"
    by (simp add: run_defs)
  have h9: "cert_from_primitive demo_crypto ''srv:other'' = Some (''srv'', ''other'')"
    by (simp add: run_defs)
  have nv: "\<not> verify demo_crypto (''srv'', ''other'') (get_public_key demo_crypto (''ca'', ''ca''))"
    by (simp add: demo_crypto_def)
  have fs: "fsys ?s = foreign_server_dir" by (simp add: start_def)
  from reuse_path_verified [OF h1 h2 h3 h4 h5 h6 h7 h8 h9, of demo_deployment] nv h1 h8 h9 fs
  show ?thesis by simp
qed

section \<open>Verification of a new server certificate\<close>

text \<open>
  Claim C3 as stated does not hold. With a CA key and a CA certificate that do not
  belong together and no server files, a new server key and certificate are generated
  and written to their files, and only then does the verification fail: both files exist
  after the aborted run. And with all four files present the verification is performed
  on the reused certificate as well, and fails there.
\<close>

theorem verified_before_persisting_counterexample:
  "files mixed_ca_dir (server_private_key_path demo_args) = None \<and>
   files mixed_ca_dir (server_certificate_path demo_args) = None \<and>
   raised (collect demo_crypto demo_deployment demo_args (start mixed_ca_dir)) =
     Some VerificationError \<and>
   map_option content
     (files (fsys (final (collect demo_crypto demo_deployment demo_args (start mixed_ca_dir))))
        (server_private_key_path demo_args)) = Some ''key'' \<and>
   map_option content
     (files (fsys (final (collect demo_crypto demo_deployment demo_args (start mixed_ca_dir))))
        (server_certificate_path demo_args)) = Some ''key:ca1'' \<and>
   out (final (generate_keys demo_crypto demo_args (start foreign_server_dir))) =
     [''Reusing existing CA keys in /cfg/ca.cert.pem'',
      ''Reusing existing server keys in /cfg/server.certificate.pem''] \<and>
   raised (generate_keys demo_crypto demo_args (start foreign_server_dir)) =
     Some VerificationError"
  by (simp add: run_defs)

text \<open>
  Claim C3, amended. Whenever \<open>generate_keys\<close> has a server certificate in hand after its
  second block, newly generated or reused, it verifies that certificate against the CA
  certificate's public key before it returns; when the verification fails, the bootstrap
  aborts with the verification error before any configuration is assembled, and neither
  the server nor the client configuration file has been touched. The verification is
  performed on the reuse path too.
\<close>

theorem server_cert_checked_on_both_paths:
  assumes rd: "dir_readable (fsys s)"
      and ca: "ca_block cp a s = Ok k s1"
      and sv: "server_block cp a k s1 = Ok u s2"
  shows "\<exists>c ca. server_cert s2 = Some c \<and> ca_cert s2 = Some ca \<and>
           generate_keys cp a s =
             (if verify cp c (get_public_key cp ca) then Ok () s2
              else Raised VerificationError s2) \<and>
           (\<not> verify cp c (get_public_key cp ca) \<longrightarrow>
              collect cp dp a s = Raised VerificationError s2) \<and>
           files (fsys s2) (server_config_path a) = files (fsys s) (server_config_path a) \<and>
           files (fsys s2) (client_config_path a) = files (fsys s) (client_config_path a)"
proof -
  from server_block_server_cert [OF sv] obtain c where c: "server_cert s2 = Some c" by auto
  from ca_block_ca_cert [OF ca] server_block_ca_cert [of cp a k s1] sv
  obtain cacert where cc: "ca_cert s2 = Some cacert" by auto
  have g: "generate_keys cp a s =
             (if verify cp c (get_public_key cp cacert) then Ok () s2
              else Raised VerificationError s2)"
    using ca sv c cc by (simp add: generate_keys_def verify_keys_def)
  have col: "collect cp dp a s = Raised VerificationError s2"
    if "\<not> verify cp c (get_public_key cp cacert)"
    using that g rd by (simp add: collect_def)
  have f1: "files (fsys s2) q = files (fsys s) q"
    if "q = server_config_path a \<or> q = client_config_path a" for q
  proof -
    from that paths_distinct [of a]
    have d: "q \<noteq> ca_private_key_path a" "q \<noteq> ca_cert_path a"
            "q \<noteq> server_private_key_path a" "q \<noteq> server_certificate_path a"
      by auto
    from ca_block_frame [OF d(1,2), of cp s] ca have "files (fsys s1) q = files (fsys s) q"
      by simp
    moreover from server_block_frame [OF d(3,4), of cp k s1] sv
    have "files (fsys s2) q = files (fsys s1) q" by simp
    ultimately show ?thesis by simp
  qed
  from c cc g col f1 show ?thesis by blast
qed

theorem server_cert_checked_on_both_paths_witness:
  "dir_readable (fsys (start mixed_ca_dir :: (string, string \<times> string) state)) \<and>
   completes (ca_block demo_crypto demo_args (start mixed_ca_dir)) \<and>
   completes (server_block demo_crypto demo_args ''ca1''
                (final (ca_block demo_crypto demo_args (start mixed_ca_dir)))) \<and>
   collect demo_crypto demo_deployment demo_args (start mixed_ca_dir) =
     Raised VerificationError
       (final (server_block demo_crypto demo_args ''ca1''
                 (final (ca_block demo_crypto demo_args (start mixed_ca_dir)))))"
proof -
  let ?s = "start mixed_ca_dir :: (string, string \<times> string) state"
  let ?s1 = "final (ca_block demo_crypto demo_args ?s)"
  let ?s2 = "final (server_block demo_crypto demo_args ''ca1'' ?s1)"
  have h1: "dir_readable (fsys ?s)" by (simp add: run_defs)
  have h2: "ca_block demo_crypto demo_args ?s = Ok ''ca1'' ?s1" by (simp add: run_defs)
  have h3: "server_block demo_crypto demo_args ''ca1'' ?s1 = Ok () ?s2"
    by (simp add: run_defs)
  have c: "server_cert ?s2 = Some (''key'', ''ca1'')" "ca_cert ?s2 = Some (''ca2'', ''ca2'')"
    by (simp_all add: run_defs)
  have nv: "\<not> verify demo_crypto (''key'', ''ca1'') (get_public_key demo_crypto (''ca2'', ''ca2''))"
    by (simp add: demo_crypto_def)
  from server_cert_checked_on_both_paths [OF h1 h2 h3, of demo_deployment] c nv
  have "collect demo_crypto demo_deployment demo_args ?s = Raised VerificationError ?s2"
    by auto
  moreover from h2 have "completes (ca_block demo_crypto demo_args ?s)"
    by (cases "ca_block demo_crypto demo_args ?s") auto
  moreover from h3 have "completes (server_block demo_crypto demo_args ''ca1'' ?s1)"
    by (cases "server_block demo_crypto demo_args ''ca1'' ?s1") auto
  ultimately show ?thesis using h1 by blast
qed

section \<open>A certificate without its key\<close>

text \<open>
  Claim C2 as stated does not hold. On a directory that contains a CA certificate but no
  CA private key the bootstrap completes: a new CA key is generated and written, and the
  existing CA certificate is overwritten with a new self-signed one.
\<close>

theorem inconsistent_ca_counterexample:
  "files cert_only_dir (ca_private_key_path demo_args) = None \<and>
   files cert_only_dir (ca_cert_path demo_args) = Some (plain_file ''lost:lost'') \<and>
   raised (collect demo_crypto demo_deployment demo_args (start cert_only_dir)) = None \<and>
   map_option content
     (files (fsys (final (collect demo_crypto demo_deployment demo_args (start cert_only_dir))))
        (ca_private_key_path demo_args)) = Some ''key'' \<and>
   map_option content
     (files (fsys (final (collect demo_crypto demo_deployment demo_args (start cert_only_dir))))
        (ca_cert_path demo_args)) = Some ''key:key''"
  by (simp add: run_defs)

text \<open>
  Claim C2, amended. For every directory that contains a CA certificate file but no CA
  private key file, \<open>generate_keys\<close> raises no error for the inconsistency: where the
  directory and the certificate file can be written, it generates a new CA key, writes it
  to the key file, overwrites the existing CA certificate with the new self-signed
  certificate and goes on with that certificate.
\<close>

theorem missing_ca_key_regenerates:
  assumes nokey: "files (fsys s) (ca_private_key_path a) = None"
      and cert: "files (fsys s) (ca_cert_path a) = Some f"
      and dw: "dir_writable (fsys s)" and fw: "writable f"
  shows "files (fsys (final (generate_keys cp a s))) (ca_private_key_path a) =
           Some \<lparr>content = key_to_primitive cp (generate_key cp (rng s)),
                 readable = True, writable = True\<rparr> \<and>
         files (fsys (final (generate_keys cp a s))) (ca_cert_path a) =
           Some (f\<lparr>content := cert_to_primitive cp (MakeCACert cp (generate_key cp (rng s)))\<rparr>) \<and>
         ca_cert (final (generate_keys cp a s)) = Some (MakeCACert cp (generate_key cp (rng s)))"
proof -
  from ca_block_regenerates [OF nokey cert dw fw, of cp] obtain s1 where
    ca: "ca_block cp a s = Ok (generate_key cp (rng s)) s1" and
    k: "files (fsys s1) (ca_private_key_path a) =
          Some \<lparr>content = key_to_primitive cp (generate_key cp (rng s)),
                readable = True, writable = True\<rparr>" and
    c: "files (fsys s1) (ca_cert_path a) =
          Some (f\<lparr>content := cert_to_primitive cp (MakeCACert cp (generate_key cp (rng s)))\<rparr>)" and
    m: "ca_cert s1 = Some (MakeCACert cp (generate_key cp (rng s)))"
    by blast
  note fin = generate_keys_final [OF ca]
  have "files (fsys (final (server_block cp a (generate_key cp (rng s)) s1))) (ca_private_key_path a)
          = files (fsys s1) (ca_private_key_path a)"
    by (rule server_block_frame) (rule paths_distinct)+
  moreover
  have "files (fsys (final (server_block cp a (generate_key cp (rng s)) s1))) (ca_cert_path a)
          = files (fsys s1) (ca_cert_path a)"
    by (rule server_block_frame) (rule paths_distinct)+
  ultimately show ?thesis
    using k c m server_block_ca_cert [of cp a "generate_key cp (rng s)" s1]
    by (simp add: fin)
qed

theorem missing_ca_key_regenerates_witness:
  "files cert_only_dir (ca_private_key_path demo_args) = None \<and>
   files cert_only_dir (ca_cert_path demo_args) = Some (plain_file ''lost:lost'') \<and>
   dir_writable cert_only_dir \<and> writable (plain_file ''lost:lost'') \<and>
   files (fsys (final (generate_keys demo_crypto demo_args (start cert_only_dir))))
     (ca_cert_path demo_args) = Some (plain_file ''key:key'') \<and>
   ca_cert (final (generate_keys demo_crypto demo_args (start cert_only_dir))) =
     Some (''key'', ''key'')"
proof -
  let ?s = "start cert_only_dir :: (string, string \<times> string) state"
  have h1: "files (fsys ?s) (ca_private_key_path demo_args) = None" by (simp add: run_defs)
  have h2: "files (fsys ?s) (ca_cert_path demo_args) = Some (plain_file ''lost:lost'')"
    by (simp add: run_defs)
  have h3: "dir_writable (fsys ?s)" by (simp add: run_defs)
  have h4: "writable (plain_file ''lost:lost'')" by (simp add: plain_file_def)
  have fs: "fsys ?s = cert_only_dir" by (simp add: start_def)
  have k: "generate_key demo_crypto (rng ?s) = ''key''" by (simp add: run_defs)
  have c: "cert_to_primitive demo_crypto (''key'', ''key'') = ''key:key''"
          "MakeCACert demo_crypto ''key'' = (''key'', ''key'')"
    by (simp_all add: demo_crypto_def)
  from missing_ca_key_regenerates [OF h1 h2 h3 h4, of demo_crypto] h1 h2 h3 h4
  show ?thesis by (simp add: fs k c plain_file_def)
qed

section \<open>A stale server pair under a new CA\<close>

text \<open>
  Claim C4 as stated does not hold. On a directory with readable server key and
  certificate files but no CA files, the CA pair is generated and the stale server pair
  is reused: only one key is drawn, the server files are left as they were, and the
  plugin holds the stale certificate.
\<close>

theorem stale_server_counterexample:
  "files stale_server_dir (ca_private_key_path demo_args) = None \<and>
   out (final (generate_keys demo_crypto demo_args (start stale_server_dir))) =
     [''Generating new CA private key into /cfg/ca.private_key.pem and /cfg/ca.cert.pem'',
      ''Reusing existing server keys in /cfg/server.certificate.pem''] \<and>
   rng (final (generate_keys demo_crypto demo_args (start stale_server_dir))) = 1 \<and>
   server_private_key (final (generate_keys demo_crypto demo_args (start stale_server_dir))) =
     Some ''old'' \<and>
   server_cert (final (generate_keys demo_crypto demo_args (start stale_server_dir))) =
     Some (''old'', ''gone'') \<and>
   files (fsys (final (generate_keys demo_crypto demo_args (start stale_server_dir))))
     (server_certificate_path demo_args) = Some (plain_file ''old:gone'')"
  by (simp add: run_defs)

text \<open>
  Claim C4, amended. For every run in which the CA key pair is freshly generated while a
  readable, parsable server private key and server certificate already exist, the server
  pair is not regenerated: it is loaded from the files, which are left unchanged, only
  the CA key is drawn, and \<open>generate_keys\<close> completes exactly when the reused certificate
  verifies against the new CA certificate's public key.
\<close>

theorem stale_server_pair_reused:
  assumes ca: "ca_block cp a s = Ok k s1"
      and drawn: "rng s1 \<noteq> rng s"
      and "open_read (fsys s) (server_private_key_path a) = Some skd"
      and "key_from_primitive cp skd = Some sk"
      and "open_read (fsys s) (server_certificate_path a) = Some scd"
      and "cert_from_primitive cp scd = Some sc"
  shows "server_private_key (final (generate_keys cp a s)) = Some sk \<and>
         server_cert (final (generate_keys cp a s)) = Some sc \<and>
         files (fsys (final (generate_keys cp a s))) (server_private_key_path a) =
           files (fsys s) (server_private_key_path a) \<and>
         files (fsys (final (generate_keys cp a s))) (server_certificate_path a) =
           files (fsys s) (server_certificate_path a) \<and>
         rng (final (generate_keys cp a s)) = Suc (rng s) \<and>
         completes (generate_keys cp a s) =
           verify cp sc (get_public_key cp (MakeCACert cp k))"
proof -
  note D = ca_block_drawn [OF ca drawn]
  have f1: "files (fsys s1) (server_private_key_path a) = files (fsys s) (server_private_key_path a)"
    using ca_block_frame [of "server_private_key_path a" a cp s] ca paths_distinct [of a]
    by simp
  have f2: "files (fsys s1) (server_certificate_path a) = files (fsys s) (server_certificate_path a)"
    using ca_block_frame [of "server_certificate_path a" a cp s] ca paths_distinct [of a]
    by simp
  from f1 f2 assms(3,5)
  have r: "open_read (fsys s1) (server_private_key_path a) = Some skd"
          "open_read (fsys s1) (server_certificate_path a) = Some scd"
    by (simp_all add: open_read_def)
  have sv: "server_block cp a k s1 =
              Ok () (yield (''Reusing existing server keys in '' @ server_certificate_path a)
                       (s1\<lparr>server_private_key := Some sk, server_cert := Some sc\<rparr>))"
    using r assms(4,6) by (simp add: server_block_def Let_def)
  have g: "generate_keys cp a s =
             verify_keys cp (yield (''Reusing existing server keys in '' @ server_certificate_path a)
                       (s1\<lparr>server_private_key := Some sk, server_cert := Some sc\<rparr>))"
    using ca sv by (simp add: generate_keys_def)
  show ?thesis
    using D f1 f2 by (simp add: g verify_keys_def yield_def)
qed

theorem stale_server_pair_reused_witness:
  "completes (ca_block demo_crypto demo_args (start stale_server_dir)) \<and>
   rng (final (ca_block demo_crypto demo_args (start stale_server_dir))) \<noteq>
     rng (start stale_server_dir :: (string, string \<times> string) state) \<and>
   open_read stale_server_dir (server_certificate_path demo_args) = Some ''old:gone'' \<and>
   server_cert (final (generate_keys demo_crypto demo_args (start stale_server_dir))) =
     Some (''old'', ''gone'') \<and>
   \<not> completes (generate_keys demo_crypto demo_args (start stale_server_dir))"
proof -
  let ?s = "start stale_server_dir :: (string, string \<times> string) state"
  let ?s1 = "final (ca_block demo_crypto demo_args ?s)"
  have h1: "ca_block demo_crypto demo_args ?s = Ok ''key'' ?s1" by (simp add: run_defs)
  have h2: "rng ?s1 \<noteq> rng ?s" by (simp add: run_defs)
  have h3: "open_read (fsys ?s) (server_private_key_path demo_args) = Some ''old''"
    by (simp add: run_defs)
  have h4: "key_from_primitive demo_crypto ''old'' = Some ''old''" by (simp add: run_defs)
  have h5: "open_read (fsys ?s) (server_certificate_path demo_args) = Some ''old:gone''"
    by (simp add: run_defs)
  have h6: "cert_from_primitive demo_crypto ''old:gone'' = Some (''old'', ''gone'')"
    by (simp add: run_defs)
  have fs: "fsys ?s = stale_server_dir" by (simp add: start_def)
  have nv: "\<not> verify demo_crypto (''old'', ''gone'')
               (get_public_key demo_crypto (MakeCACert demo_crypto ''key''))"
    by (simp add: demo_crypto_def)
  from h1 have c: "completes (ca_block demo_crypto demo_args ?s)"
    by (cases "ca_block demo_crypto demo_args ?s") auto
  from stale_server_pair_reused [OF h1 h2 h3 h4 h5 h6] nv c h2 h5
  show ?thesis by (simp add: fs)
qed

section \<open>The client configuration document\<close>

text \<open>
  Claim C6. Whenever \<open>write_config\<close> completes, the client configuration document it has
  written is the warning line followed by the serialisation of a configuration that holds
  only the client policy and the CA certificate of the configuration in use (the one
  loaded or built): its server policy, with the server's private key and certificate, its
  manifest and its signed manifest are not set.
\<close>

theorem client_document_is_projection:
  assumes "write_config cp dp a s = Ok u s'"
  shows "\<exists>config set_obj s1.
           load_or_build_config cp dp a s = Ok (config, set_obj) s1 \<and>
           map_option content (files (fsys s') (client_config_path a)) =
             Some (client_config_warning @
                   dump_config dp \<lparr>server = None, client = client config,
                                   ca_certificate = ca_certificate config,
                                   manifest = None, signed_manifest = None\<rparr>)"
proof -
  from assms obtain config set_obj s1 where
    l: "load_or_build_config cp dp a s = Ok (config, set_obj) s1" and
    w: "write_client_config dp a config set_obj s1 = Ok u s'"
    by (auto simp: write_config_def split: outcome.splits prod.splits)
  from write_client_config_Ok [OF w]
  have "map_option content (files (fsys s') (client_config_path a)) =
          Some (client_config_warning @
                dump_config dp \<lparr>server = None, client = client config,
                                ca_certificate = ca_certificate config,
                                manifest = None, signed_manifest = None\<rparr>)"
    by (simp add: client_projection_def Configuration_def)
  with l show ?thesis by blast
qed

theorem client_document_is_projection_witness:
  "completes (write_config demo_crypto demo_deployment demo_args
                (final (generate_keys demo_crypto demo_args (start empty_dir)))) \<and>
   (\<exists>config set_obj s1.
      load_or_build_config demo_crypto demo_deployment demo_args
        (final (generate_keys demo_crypto demo_args (start empty_dir))) =
        Ok (config, set_obj) s1 \<and>
      map_option content
        (files (fsys (final (write_config demo_crypto demo_deployment demo_args
                 (final (generate_keys demo_crypto demo_args (start empty_dir))))))
           (client_config_path demo_args)) =
        Some (client_config_warning @
              dump_config demo_deployment
                \<lparr>server = None, client = client config,
                 ca_certificate = ca_certificate config,
                 manifest = None, signed_manifest = None\<rparr>)) \<and>
   map_option content
     (files (fsys (final (write_config demo_crypto demo_deployment demo_args
              (final (generate_keys demo_crypto demo_args (start empty_dir))))))
        (server_config_path demo_args)) = Some ''server_key=key+;secret=0a1b2c3d4e'' \<and>
   map_option content
     (files (fsys (final (write_config demo_crypto demo_deployment demo_args
              (final (generate_keys demo_crypto demo_args (start empty_dir))))))
        (client_config_path demo_args)) = Some (client_config_warning @ ''secret=0a1b2c3d4e'')"
proof -
  let ?s = "final (generate_keys demo_crypto demo_args (start empty_dir))"
  let ?w = "write_config demo_crypto demo_deployment demo_args ?s"
  have run: "completes ?w" by (simp add: run_defs)
  then obtain u s' where ok: "?w = Ok u s'" by (cases ?w) auto
  have c: "map_option content (files (fsys (final ?w)) (server_config_path demo_args)) =
             Some ''server_key=key+;secret=0a1b2c3d4e''"
          "map_option content (files (fsys (final ?w)) (client_config_path demo_args)) =
             Some (client_config_warning @ ''secret=0a1b2c3d4e'')"
    by (simp_all add: run_defs)
  from client_document_is_projection [OF ok] run c ok show ?thesis by simp
qed

text \<open>
  Claim C9 as stated does not hold. A run on a directory whose server configuration file
  exists but cannot be parsed reaches \<open>write_config\<close>, which raises while loading the
  file: no client configuration document is written.
\<close>

theorem client_document_not_written_counterexample:
  "os_access_R_OK garbled_config_dir (server_config_path demo_args) \<and>
   completes (generate_keys demo_crypto demo_args (start garbled_config_dir)) \<and>
   out (final (collect demo_crypto demo_deployment demo_args (start garbled_config_dir))) =
     [''Reusing existing CA keys in /cfg/ca.cert.pem'',
      ''Reusing existing server keys in /cfg/server.certificate.pem'',
      ''Server config at /cfg/server.config.yaml exists. Remove to regenerate.''] \<and>
   raised (collect demo_crypto demo_deployment demo_args (start garbled_config_dir)) =
     Some ConfigParseError \<and>
   files (fsys (final (collect demo_crypto demo_deployment demo_args (start garbled_config_dir))))
     (client_config_path demo_args) = None"
  by (simp add: run_defs)

text \<open>
  Claim C9, amended. On every run in which \<open>write_config\<close> obtains the configuration, by
  loading the existing server configuration file or by building and writing a new one,
  and the client configuration file can be written, the client configuration document is
  written, prefixed with the warning comment, whatever \<open>write_config\<close> does afterwards.
  This includes the runs where the server configuration file already exists and is
  reused: the document is derived again from the configuration in use.
\<close>

theorem client_document_rewritten:
  assumes "load_or_build_config cp dp a s = Ok (config, set_obj) s1"
      and "can_write (fsys s1) (client_config_path a)"
  shows "map_option content
           (files (fsys (final (write_config cp dp a s))) (client_config_path a)) =
         Some (client_config_warning @ dump_config dp (client_projection config))"
  using assms write_client_config_written [OF assms(2), of dp config set_obj]
  by (simp add: write_config_def)

theorem client_document_rewritten_witness:
  "os_access_R_OK deployed_dir (server_config_path demo_args) \<and>
   completes (load_or_build_config demo_crypto demo_deployment demo_args
                (final (generate_keys demo_crypto demo_args (start deployed_dir)))) \<and>
   can_write deployed_dir (client_config_path demo_args) \<and>
   files deployed_dir (client_config_path demo_args) = None \<and>
   map_option content
     (files (fsys (final (write_config demo_crypto demo_deployment demo_args
              (final (generate_keys demo_crypto demo_args (start deployed_dir))))))
        (client_config_path demo_args)) =
     Some (client_config_warning @ ''secret=0a1b2c3d4e'')"
proof -
  let ?s = "final (generate_keys demo_crypto demo_args (start deployed_dir))"
  let ?l = "load_or_build_config demo_crypto demo_deployment demo_args ?s"
  have fs: "fsys ?s = deployed_dir" by (simp add: run_defs)
  have acc: "os_access_R_OK deployed_dir (server_config_path demo_args)" by (simp add: run_defs)
  have l: "?l = Ok (the (demo_load_config ''server_key=srv;secret=0a1b2c3d4e''), None) (final ?l)"
    by (simp add: run_defs)
  have fl: "fsys (final ?l) = deployed_dir" by (simp add: run_defs)
  have cw: "can_write deployed_dir (client_config_path demo_args)"
    by (simp add: run_defs')
  have ne: "files deployed_dir (client_config_path demo_args) = None" by (simp add: run_defs)
  have d: "dump_config demo_deployment
             (client_projection (the (demo_load_config ''server_key=srv;secret=0a1b2c3d4e''))) =
           ''secret=0a1b2c3d4e''"
    by (simp add: run_defs)
  from l have c: "completes ?l" by (cases ?l) auto
  from cw fl have cw': "can_write (fsys (final ?l)) (client_config_path demo_args)" by simp
  from client_document_rewritten [OF l cw'] acc c cw ne d show ?thesis by simp
qed

section \<open>Labels\<close>

text \<open>
  Claim C5 fails on the code. For labels that do not contain \<^verbatim>\<open>"All"\<close>, such as
  \<^verbatim>\<open>[]\<close> and \<^verbatim>\<open>["foo"]\<close>, \<open>build_config\<close> does not complete: the call
  \<^verbatim>\<open>labels.add("All")\<close> on a list raises \<^verbatim>\<open>AttributeError\<close>, and no configuration is
  assembled.
\<close>

theorem labels_without_All_raise:
  assumes "''All'' \<notin> set (arg_labels a)"
  shows "build_config cp dp a s config = Raised AttributeError s"
  using assms by (simp add: build_config_def Let_def)

theorem labels_without_All_raise_witness:
  "''All'' \<notin> set (arg_labels (demo_args\<lparr>arg_labels := [''foo'']\<rparr>)) \<and>
   ''All'' \<notin> set (arg_labels (demo_args\<lparr>arg_labels := []\<rparr>)) \<and>
   raised (build_config demo_crypto demo_deployment (demo_args\<lparr>arg_labels := [''foo'']\<rparr>)
             (final (generate_keys demo_crypto demo_args (start empty_dir))) Configuration) =
     Some AttributeError \<and>
   raised (write_config demo_crypto demo_deployment (demo_args\<lparr>arg_labels := []\<rparr>)
             (final (generate_keys demo_crypto demo_args (start empty_dir)))) =
     Some AttributeError"
proof -
  have h: "''All'' \<notin> set (arg_labels (demo_args\<lparr>arg_labels := [''foo'']\<rparr>))"
          "''All'' \<notin> set (arg_labels (demo_args\<lparr>arg_labels := []\<rparr>))"
    by simp_all
  have w: "raised (write_config demo_crypto demo_deployment (demo_args\<lparr>arg_labels := []\<rparr>)
             (final (generate_keys demo_crypto demo_args (start empty_dir)))) =
           Some AttributeError"
    by (simp add: run_defs)
  from labels_without_All_raise [OF h(1), of demo_crypto demo_deployment
      "final (generate_keys demo_crypto demo_args (start empty_dir))" Configuration] h w
  show ?thesis by simp
qed

section \<open>The check of the directory\<close>

text \<open>
  Claim C8 fails on the code. \<open>collect\<close> tests whether the directory can be read, not
  whether it can be written. On an empty directory that can be read but not written the
  run passes the test, reports that it generates a new CA key, draws the key, and only
  then fails, with the \<^verbatim>\<open>IOError\<close> of opening the key file for writing.
\<close>

theorem unwritable_directory_fails_late:
  assumes "dir_readable (fsys s)" and "\<not> dir_writable (fsys s)"
      and "files (fsys s) (ca_private_key_path a) = None"
  shows "collect cp dp a s =
           Raised (IOError (ca_private_key_path a))
             ((yield (''Generating new CA private key into '' @ ca_private_key_path a @
                      '' and '' @ ca_cert_path a) s)\<lparr>rng := Suc (rng s)\<rparr>)"
  using assms
  by (simp add: collect_def generate_keys_def ca_block_def ca_except_def open_read_def
                open_write_def yield_def Let_def)

theorem unwritable_directory_fails_late_witness:
  "dir_readable read_only_dir \<and> \<not> dir_writable read_only_dir \<and>
   files read_only_dir (ca_private_key_path demo_args) = None \<and>
   raised (collect demo_crypto demo_deployment demo_args (start read_only_dir)) =
     Some (IOError ''/cfg/ca.private_key.pem'') \<and>
   out (final (collect demo_crypto demo_deployment demo_args (start read_only_dir))) =
     [''Generating new CA private key into /cfg/ca.private_key.pem and /cfg/ca.cert.pem''] \<and>
   rng (final (collect demo_crypto demo_deployment demo_args (start read_only_dir))) = 1"
proof -
  let ?s = "start read_only_dir :: (string, string \<times> string) state"
  have h1: "dir_readable (fsys ?s)" by (simp add: run_defs)
  have h2: "\<not> dir_writable (fsys ?s)" by (simp add: run_defs)
  have h3: "files (fsys ?s) (ca_private_key_path demo_args) = None" by (simp add: run_defs)
  have fs: "fsys ?s = read_only_dir" "rng ?s = 0" "out ?s = []" by (simp_all add: start_def)
  have p: "ca_private_key_path demo_args = ''/cfg/ca.private_key.pem''"
          "ca_cert_path demo_args = ''/cfg/ca.cert.pem''"
    by (simp_all add: run_defs)
  from unwritable_directory_fails_late [OF h1 h2 h3, of demo_crypto demo_deployment] h1 h2 h3
  show ?thesis by (simp add: fs p yield_def)
qed

section \<open>Idempotence\<close>



end
